theory Spec2Isabelle
  imports Complex_Main
begin

section \<open>The Streamlit underwriting form (app1.py)\<close>

text \<open>
  app1.py is a Streamlit script: one run of the script from top to bottom is one render
  pass. The model is a function from the process environment and the state of the
  widgets in the browser to what the pass displays. Python strings are byte lists in
  UTF-8 (the script only compares and concatenates them), so the emoji of the labels are
  written as their bytes.
\<close>

subsection \<open>Python values\<close>

text \<open>Truthiness of a string (\<open>if applicant_id\<close>) and of an optional string
  (\<open>if not api_key\<close>, where \<open>os.getenv\<close> may have returned \<open>None\<close>).\<close>

definition py_truthy :: "string \<Rightarrow> bool" where
  "py_truthy s = (s \<noteq> [])"

definition py_truthy_opt :: "string option \<Rightarrow> bool" where
  "py_truthy_opt v = (case v of None \<Rightarrow> False | Some s \<Rightarrow> py_truthy s)"

text \<open>What an f-string prints for a bool.\<close>

definition py_str_bool :: "bool \<Rightarrow> string" where
  "py_str_bool b = (if b then ''True'' else ''False'')"

text \<open>
  A finite Python float is represented by what \<open>repr\<close> prints for it: a sign, the
  shortest decimal digits \<open>d1 ... dn\<close> that round-trip, and the position of the decimal
  point, the value being \<open>0.d1...dn * 10 ^ decpt\<close>. Distinct floats have distinct such
  decimals, in the same order as the floats, so comparisons are decided on the decimals.
  The script does no arithmetic on floats. Zero has no digits.
\<close>

datatype pyfloat = PyFloat (negative: bool) (digits: "nat list") (decpt: int)

definition digits_value :: "nat list \<Rightarrow> nat" where
  "digits_value ds = foldl (\<lambda>a d. 10 * a + d) 0 ds"

definition float_value :: "pyfloat \<Rightarrow> rat" where
  "float_value x =
     (let m = of_nat (digits_value (digits x)) * power_int 10 (decpt x - int (length (digits x)))
      in if negative x then - m else m)"

definition float_le :: "pyfloat \<Rightarrow> pyfloat \<Rightarrow> bool" where
  "float_le a b = (float_value a \<le> float_value b)"

text \<open>
  The decimals that can be the \<open>repr\<close> of a float: the digits are decimal digits, and a
  decimal that is not zero has neither a leading nor a trailing zero.
\<close>

definition float_wf :: "pyfloat \<Rightarrow> bool" where
  "float_wf x =
     (case digits x of
        [] \<Rightarrow> True
      | d # ds \<Rightarrow> d \<noteq> 0 \<and> last (d # ds) \<noteq> 0 \<and> list_all (\<lambda>c. c < 10) (d # ds))"

definition digit_char :: "nat \<Rightarrow> char" where
  "digit_char d = char_of (48 + d)"

definition digits_str :: "nat list \<Rightarrow> string" where
  "digits_str ds = map digit_char ds"

text \<open>The decimal numeral of a natural number, for the exponent of the scientific form.\<close>

fun nat_digits :: "nat \<Rightarrow> nat \<Rightarrow> nat list" where
  "nat_digits 0 n = []"
| "nat_digits (Suc fuel) n = (if n < 10 then [n] else nat_digits fuel (n div 10) @ [n mod 10])"

definition py_str_nat :: "nat \<Rightarrow> string" where
  "py_str_nat n = digits_str (nat_digits (Suc n) n)"

text \<open>
  \<open>str\<close> of a float, which is what \<open>f"{confidence_level}"\<close> prints: positional
  notation while the decimal point lies within \<open>-4 < decpt \<le> 16\<close>, scientific notation
  with an exponent of at least two digits otherwise.
\<close>

definition py_str_float :: "pyfloat \<Rightarrow> string" where
  "py_str_float x =
     (let ds = digits x; n = int (length ds); p = decpt x;
          sgn = (if negative x then ''-'' else '''')
      in if ds = [] then sgn @ ''0.0''
         else if p \<le> - 4 \<or> 16 < p then
           sgn @ digits_str (take 1 ds)
               @ (if 1 < n then ''.'' @ digits_str (drop 1 ds) else '''')
               @ ''e'' @ (if p - 1 < 0 then ''-'' else ''+'')
               @ (if nat \<bar>p - 1\<bar> < 10 then ''0'' else '''') @ py_str_nat (nat \<bar>p - 1\<bar>)
         else if p \<le> 0 then sgn @ ''0.'' @ replicate (nat (- p)) (CHR ''0'') @ digits_str ds
         else if n \<le> p then sgn @ digits_str ds @ replicate (nat (p - n)) (CHR ''0'') @ ''.0''
         else sgn @ digits_str (take (nat p) ds) @ ''.'' @ digits_str (drop (nat p) ds))"

subsection \<open>The process and the browser\<close>

text \<open>
  What a start of the process finds: whether \<open>from dotenv import load_dotenv\<close>
  succeeds, the variables of the process, the assignments of the \<open>.env\<close> file, and
  whether the three imports from the \<open>underwriting\<close> package succeed, in which case
  \<open>__version__\<close> is bound to the package's version string.
\<close>

record process =
  dotenv_installed :: bool
  os_environ :: "string \<rightharpoonup> string"
  dotenv_file :: "string \<rightharpoonup> string"
  underwriting :: "string option"

text \<open>\<open>load_dotenv()\<close> adds the assignments of the file to the variables of the
  process; a variable that is already set keeps its value.\<close>

definition load_dotenv :: "(string \<rightharpoonup> string) \<Rightarrow> (string \<rightharpoonup> string) \<Rightarrow> (string \<rightharpoonup> string)" where
  "load_dotenv file environ = file ++ environ"

definition os_getenv :: "(string \<rightharpoonup> string) \<Rightarrow> string \<Rightarrow> string option" where
  "os_getenv environ name = environ name"

text \<open>
  The state of the widgets as the browser sends it with a rerun, by widget label;
  a widget the user has not touched has no entry. \<open>clicked\<close> is the button whose press
  caused the rerun, if one did.
\<close>

record frontend =
  radio_state :: "string \<rightharpoonup> string"
  text_state :: "string \<rightharpoonup> string"
  checkbox_state :: "string \<rightharpoonup> bool"
  slider_state :: "string \<rightharpoonup> pyfloat"
  clicked :: "string option"

subsection \<open>What a pass displays\<close>

datatype element =
    Error string
  | Success string
  | Info string
  | PageConfig string string
  | Title string
  | Caption string
  | Header string
  | Write string
  | Radio string "string list"
  | TextInput string string
  | Checkbox string bool
  | Slider string pyfloat pyfloat pyfloat
  | Button string
  | Spinner string

datatype view = Home | BasicUnderwriting | ABTesting | About

text \<open>The part of the script that displayed an element: the startup checks
  (lines 15 to 34), the page frame and sidebar (lines 37 to 45), or the branch of one view.\<close>

datatype region = Startup | Page | Sidebar | Body view

datatype collaborator = BasicMain | ABTestMain

text \<open>The result of a pass: whether \<open>st.stop()\<close> ended it, what it displayed in order,
  and which collaborator functions it called.\<close>

record result =
  halted :: bool
  shown :: "(region \<times> element) list"
  invoked :: "collaborator list"

definition body_of :: "view \<Rightarrow> (region \<times> element) list \<Rightarrow> element list" where
  "body_of v out = map snd (filter (\<lambda>p. fst p = Body v) out)"

definition all_views :: "view list" where
  "all_views = [Home, BasicUnderwriting, ABTesting, About]"

definition rendered_views :: "(region \<times> element) list \<Rightarrow> view list" where
  "rendered_views out = filter (\<lambda>v. body_of v out \<noteq> []) all_views"

fun is_error :: "element \<Rightarrow> bool" where
  "is_error (Error m) = True"
| "is_error e = False"

subsection \<open>Streamlit widgets\<close>

text \<open>A widget returns the value the user gave it, or its default while untouched.
  A radio group starts on its first option; a button is true only in the rerun its
  press caused.\<close>

definition st_radio :: "string \<Rightarrow> string list \<Rightarrow> frontend \<Rightarrow> string option" where
  "st_radio label options ui =
     (case radio_state ui label of
        Some v \<Rightarrow> Some v
      | None \<Rightarrow> (case options of [] \<Rightarrow> None | x # xs \<Rightarrow> Some x))"

definition st_text_input :: "string \<Rightarrow> string \<Rightarrow> frontend \<Rightarrow> string" where
  "st_text_input label val ui = (case text_state ui label of Some s \<Rightarrow> s | None \<Rightarrow> val)"

definition st_checkbox :: "string \<Rightarrow> frontend \<Rightarrow> bool" where
  "st_checkbox label ui = (case checkbox_state ui label of Some b \<Rightarrow> b | None \<Rightarrow> False)"

definition st_button :: "string \<Rightarrow> frontend \<Rightarrow> bool" where
  "st_button label ui = (clicked ui = Some label)"

text \<open>
  Modelled from the spec: \<open>st.slider\<close>, the bounded control of the Streamlit library,
  whose code is not part of this repository. The spec describes it as a bounded
  continuous control with a valid range and a default, where values outside the range
  are rejected by the widget itself and not passed through: the widget returns the
  user's value when it lies in the range, and its default otherwise.
\<close>

definition st_slider :: "string \<Rightarrow> pyfloat \<Rightarrow> pyfloat \<Rightarrow> pyfloat \<Rightarrow> frontend \<Rightarrow> pyfloat" where
  "st_slider label min_value max_value val ui =
     (case slider_state ui label of
        None \<Rightarrow> val
      | Some v \<Rightarrow> if float_le min_value v \<and> float_le v max_value then v else val)"

subsection \<open>Faults in the body of a trigger action\<close>

text \<open>
  The statements in the \<open>try\<close> blocks (lines 69 to 74 and 90 to 95) are display calls.
  A fault plan says which of them, by its position in the block, raises an
  \<open>Exception\<close> and with what message; \<open>None\<close> is a pass in which no call raises.
\<close>

type_synonym fault = "(nat \<times> string) option"

definition st_call :: "fault \<Rightarrow> nat \<Rightarrow> element \<Rightarrow> string + element" where
  "st_call f i e =
     (case f of
        None \<Rightarrow> Inr e
      | Some (k, msg) \<Rightarrow> if k = i then Inl msg else Inr e)"

text \<open>Runs the statements of a block in order from position \<open>i\<close>; returns what was
  displayed before the first raise, and the message of the exception if one was raised.\<close>

fun run_block :: "fault \<Rightarrow> nat \<Rightarrow> element list \<Rightarrow> element list \<times> string option" where
  "run_block f i [] = ([], None)"
| "run_block f i (e # es) =
     (case st_call f i e of
        Inl msg \<Rightarrow> ([], Some msg)
      | Inr x \<Rightarrow> (case run_block f (Suc i) es of (out, exn) \<Rightarrow> (x # out, exn)))"

text \<open>\<open>try: block except Exception as e: st.error(f"Error: {e}")\<close>\<close>

definition try_except :: "fault \<Rightarrow> element list \<Rightarrow> element list" where
  "try_except f block =
     (case run_block f 0 block of
        (out, None) \<Rightarrow> out
      | (out, Some msg) \<Rightarrow> out @ [Error (''Error: '' @ msg)])"

subsection \<open>The strings of the script\<close>

definition dotenv_missing_msg :: string where
  "dotenv_missing_msg = ''Please install python-dotenv using: pip install python-dotenv''"

definition api_key_missing_msg :: string where
  "api_key_missing_msg = [CHR 0xE2, CHR 0x9D, CHR 0x8C]
     @ '' OPENAI_API_KEY not found in your .env file. Please add it to proceed.''"

definition import_failed_msg :: string where
  "import_failed_msg = [CHR 0xE2, CHR 0x9D, CHR 0x8C]
     @ '' Unable to import underwriting modules. Ensure your project structure and dependencies are correct.''"

definition page_title :: string where
  "page_title = [CHR 0xF0, CHR 0x9F, CHR 0x9A, CHR 0x97] @ '' Insurance Underwriting AI''"

definition app_title :: string where
  "app_title = [CHR 0xF0, CHR 0x9F, CHR 0x9A, CHR 0x97] @ '' Automobile Insurance Underwriting System''"

definition home_label :: string where
  "home_label = [CHR 0xF0, CHR 0x9F, CHR 0x8F, CHR 0xA0] @ '' Home''"

definition basic_label :: string where
  "basic_label = [CHR 0xF0, CHR 0x9F, CHR 0xA7, CHR 0xBE] @ '' Basic Underwriting''"

definition ab_label :: string where
  "ab_label = [CHR 0xF0, CHR 0x9F, CHR 0xA7, CHR 0xAA] @ '' A/B Testing''"

definition about_label :: string where
  "about_label = [CHR 0xE2, CHR 0x84, CHR 0xB9, CHR 0xEF, CHR 0xB8, CHR 0x8F] @ '' About''"

definition menu_options :: "string list" where
  "menu_options = [home_label, basic_label, ab_label, about_label]"

fun label_of :: "view \<Rightarrow> string" where
  "label_of Home = home_label"
| "label_of BasicUnderwriting = basic_label"
| "label_of ABTesting = ab_label"
| "label_of About = about_label"

definition home_text :: string where
  "home_text = ''\<newline>    This Streamlit app allows you to:\<newline>    - Perform **basic underwriting evaluations**.\<newline>    - Run **A/B testing** for rule comparisons.\<newline>    - Uses **OpenAI** for intelligent decisions (API Key secured via `.env`).\<newline>    - Ready for **GitHub, Render, HuggingFace Spaces, or Streamlit Cloud**.\<newline>    ''"

definition about_text :: string where
  "about_text = ''\<newline>    This **Streamlit application** converts your CLI-based underwriting system into a fully interactive, deployable app.\<newline>\<newline>    **Features:**\<newline>    - Securely loads your OpenAI API Key from `.env`.\<newline>    - Supports **basic underwriting evaluation** and **A/B testing** modules.\<newline>    - Ready for deployment on **Streamlit Cloud**, **Render**, or **HuggingFace Spaces**.\<newline>\<newline>    **Usage:**\<newline>    ```\<newline>    streamlit run app_streamlit.py\<newline>    ```\<newline>    Ensure your `.env` file contains:\<newline>    ```\<newline>    OPENAI_API_KEY=sk-xxxxxx\<newline>    ```\<newline>\<newline>    Developed for clarity, portability, and direct professional usage.\<newline>    ''"

definition basic_success_msg :: string where
  "basic_success_msg = [CHR 0xE2, CHR 0x9C, CHR 0x85] @ '' Underwriting evaluation completed (demo).''"

definition ab_success_msg :: string where
  "ab_success_msg = [CHR 0xE2, CHR 0x9C, CHR 0x85] @ '' A/B testing completed (demo).''"

definition default_rules_file :: string where
  "default_rules_file = ''config/rules/underwriting_rules.json''"

text \<open>The float literals of line 86: \<open>0.8\<close>, \<open>0.99\<close> and \<open>0.95\<close>.\<close>

definition confidence_min :: pyfloat where
  "confidence_min = PyFloat False [8] 0"

definition confidence_max :: pyfloat where
  "confidence_max = PyFloat False [9, 9] 0"

definition confidence_default :: pyfloat where
  "confidence_default = PyFloat False [9, 5] 0"

subsection \<open>The views\<close>

text \<open>Home (lines 48 to 56).\<close>

definition home_view :: "element list" where
  "home_view = [Header (''Welcome '' @ [CHR 0xF0, CHR 0x9F, CHR 0x91, CHR 0x8B]), Write home_text]"

text \<open>Basic Underwriting (lines 59 to 76): the values of the four inputs, as the
  script's variables.\<close>

definition applicant_id :: "frontend \<Rightarrow> string" where
  "applicant_id ui = st_text_input ''Applicant ID (optional):'' [] ui"

definition rules_file :: "frontend \<Rightarrow> string" where
  "rules_file ui = st_text_input ''Rules File'' default_rules_file ui"

definition run_test :: "frontend \<Rightarrow> bool" where
  "run_test ui = st_checkbox ''Run automated tests with sample applicants'' ui"

definition run_interactive :: "frontend \<Rightarrow> bool" where
  "run_interactive ui = st_checkbox ''Run interactive underwriting session'' ui"

definition basic_widgets :: "frontend \<Rightarrow> element list" where
  "basic_widgets ui =
     [Header ([CHR 0xF0, CHR 0x9F, CHR 0xA7, CHR 0xBE] @ '' Basic Underwriting Evaluation''),
      TextInput ''Applicant ID (optional):'' (applicant_id ui),
      TextInput ''Rules File'' (rules_file ui),
      Checkbox ''Run automated tests with sample applicants'' (run_test ui),
      Checkbox ''Run interactive underwriting session'' (run_interactive ui),
      Button ''Run Underwriting Evaluation'']"

definition basic_block :: "frontend \<Rightarrow> element list" where
  "basic_block ui =
     [Success basic_success_msg,
      Info (''Applicant ID: '' @ (if py_truthy (applicant_id ui) then applicant_id ui else ''N/A'')),
      Info (''Rules File: '' @ rules_file ui),
      Info (''Run Test: '' @ py_str_bool (run_test ui)
            @ '', Run Interactive: '' @ py_str_bool (run_interactive ui))]"

definition basic_view :: "frontend \<Rightarrow> fault \<Rightarrow> element list" where
  "basic_view ui f =
     basic_widgets ui @
     (if st_button ''Run Underwriting Evaluation'' ui
      then Spinner ''Running basic underwriting evaluation...'' # try_except f (basic_block ui)
      else [])"

text \<open>A/B Testing (lines 79 to 97).\<close>

definition list_configs :: "frontend \<Rightarrow> bool" where
  "list_configs ui = st_checkbox ''List available test configurations'' ui"

definition comprehensive :: "frontend \<Rightarrow> bool" where
  "comprehensive ui = st_checkbox ''Run comprehensive A/B test suite'' ui"

definition variant_a :: "frontend \<Rightarrow> string" where
  "variant_a ui = st_text_input ''Variant A for comparison:'' [] ui"

definition variant_b :: "frontend \<Rightarrow> string" where
  "variant_b ui = st_text_input ''Variant B for comparison:'' [] ui"

definition confidence_level :: "frontend \<Rightarrow> pyfloat" where
  "confidence_level ui =
     st_slider ''Confidence Level'' confidence_min confidence_max confidence_default ui"

definition ab_widgets :: "frontend \<Rightarrow> element list" where
  "ab_widgets ui =
     [Header ([CHR 0xF0, CHR 0x9F, CHR 0xA7, CHR 0xAA] @ '' A/B Testing Module''),
      Checkbox ''List available test configurations'' (list_configs ui),
      Checkbox ''Run comprehensive A/B test suite'' (comprehensive ui),
      TextInput ''Variant A for comparison:'' (variant_a ui),
      TextInput ''Variant B for comparison:'' (variant_b ui),
      Slider ''Confidence Level'' confidence_min confidence_max (confidence_level ui),
      Button ''Run A/B Testing'']"

definition ab_block :: "frontend \<Rightarrow> element list" where
  "ab_block ui =
     [Success ab_success_msg,
      Info (''Variants Compared: '' @ variant_a ui @ '' vs '' @ variant_b ui),
      Info (''Comprehensive: '' @ py_str_bool (comprehensive ui)
            @ '', Confidence: '' @ py_str_float (confidence_level ui)),
      Info (''List Configs: '' @ py_str_bool (list_configs ui))]"

definition ab_view :: "frontend \<Rightarrow> fault \<Rightarrow> element list" where
  "ab_view ui f =
     ab_widgets ui @
     (if st_button ''Run A/B Testing'' ui
      then Spinner ''Running A/B testing...'' # try_except f (ab_block ui)
      else [])"

text \<open>About (lines 100 to 120).\<close>

definition about_view :: "element list" where
  "about_view =
     [Header ([CHR 0xE2, CHR 0x84, CHR 0xB9, CHR 0xEF, CHR 0xB8, CHR 0x8F] @ '' About This App''),
      Write about_text]"

subsection \<open>The script\<close>

definition in_region :: "region \<Rightarrow> element list \<Rightarrow> (region \<times> element) list" where
  "in_region r es = map (Pair r) es"

text \<open>\<open>st.error(msg); st.stop()\<close>: the pass ends with what it has displayed so far.\<close>

definition error_and_stop :: "string \<Rightarrow> result" where
  "error_and_stop msg = \<lparr>halted = True, shown = [(Startup, Error msg)], invoked = []\<rparr>"

text \<open>The credential as line 22 reads it, after \<open>load_dotenv()\<close> has run.\<close>

definition api_key :: "process \<Rightarrow> string option" where
  "api_key w = os_getenv (load_dotenv (dotenv_file w) (os_environ w)) ''OPENAI_API_KEY''"

definition menu :: "frontend \<Rightarrow> string option" where
  "menu ui = st_radio ''Select Option'' menu_options ui"

text \<open>Lines 37 to 45: page configuration, title, version caption and the sidebar menu.\<close>

definition page_frame :: "string \<Rightarrow> (region \<times> element) list" where
  "page_frame version =
     [(Page, PageConfig page_title ''centered''),
      (Page, Title app_title),
      (Page, Caption (''Version: '' @ version)),
      (Sidebar, Radio ''Select Option'' menu_options)]"

text \<open>Lines 48 to 120: the chain of comparisons of the menu value. It has no final
  \<open>else\<close>: a value that is none of the four labels displays nothing.\<close>

definition dispatch :: "frontend \<Rightarrow> fault \<Rightarrow> (region \<times> element) list" where
  "dispatch ui f =
     (if menu ui = Some home_label then in_region (Body Home) home_view
      else if menu ui = Some basic_label then in_region (Body BasicUnderwriting) (basic_view ui f)
      else if menu ui = Some ab_label then in_region (Body ABTesting) (ab_view ui f)
      else if menu ui = Some about_label then in_region (Body About) about_view
      else [])"

text \<open>The whole script. Neither \<open>basic_main\<close> nor \<open>ab_test_main\<close> is called on any
  path (the calls are comments at lines 70 and 91), so no path records a call.\<close>

definition app1 :: "process \<Rightarrow> frontend \<Rightarrow> fault \<Rightarrow> result" where
  "app1 w ui f =
     (if \<not> dotenv_installed w then error_and_stop dotenv_missing_msg
      else if \<not> py_truthy_opt (api_key w) then error_and_stop api_key_missing_msg
      else (case underwriting w of
              None \<Rightarrow> error_and_stop import_failed_msg
            | Some version \<Rightarrow>
                \<lparr>halted = False, shown = page_frame version @ dispatch ui f, invoked = []\<rparr>))"

subsection \<open>Sample inputs\<close>

text \<open>Concrete processes and widget states, used to instantiate the theorems below.\<close>

definition sample_process :: process where
  "sample_process = \<lparr>dotenv_installed = True,
     os_environ = Map.empty, dotenv_file = [''OPENAI_API_KEY'' \<mapsto> ''sk-test''],
     underwriting = Some ''1.0''\<rparr>"

definition no_key_process :: process where
  "no_key_process = \<lparr>dotenv_installed = True,
     os_environ = [''OPENAI_API_KEY'' \<mapsto> []], dotenv_file = Map.empty,
     underwriting = Some ''1.0''\<rparr>"

definition no_modules_process :: process where
  "no_modules_process = \<lparr>dotenv_installed = True,
     os_environ = [''OPENAI_API_KEY'' \<mapsto> ''sk-test''], dotenv_file = Map.empty,
     underwriting = None\<rparr>"

definition untouched_ui :: frontend where
  "untouched_ui = \<lparr>radio_state = Map.empty, text_state = Map.empty,
     checkbox_state = Map.empty, slider_state = Map.empty, clicked = None\<rparr>"

definition basic_pressed_ui :: frontend where
  "basic_pressed_ui = \<lparr>radio_state = [''Select Option'' \<mapsto> basic_label],
     text_state = Map.empty, checkbox_state = Map.empty, slider_state = Map.empty,
     clicked = Some ''Run Underwriting Evaluation''\<rparr>"

definition named_pressed_ui :: frontend where
  "named_pressed_ui = \<lparr>radio_state = [''Select Option'' \<mapsto> basic_label],
     text_state = [''Applicant ID (optional):'' \<mapsto> ''APP-42''],
     checkbox_state = Map.empty, slider_state = Map.empty,
     clicked = Some ''Run Underwriting Evaluation''\<rparr>"

definition ab_pressed_ui :: frontend where
  "ab_pressed_ui = \<lparr>radio_state = [''Select Option'' \<mapsto> ab_label],
     text_state = [''Variant A for comparison:'' \<mapsto> ''A1'',
                   ''Variant B for comparison:'' \<mapsto> ''A2''],
     checkbox_state = Map.empty, slider_state = Map.empty,
     clicked = Some ''Run A/B Testing''\<rparr>"

definition out_of_range_ui :: frontend where
  "out_of_range_ui = \<lparr>radio_state = [''Select Option'' \<mapsto> ab_label],
     text_state = Map.empty, checkbox_state = Map.empty,
     slider_state = [''Confidence Level'' \<mapsto> PyFloat False [1, 5] 1],
     clicked = Some ''Run A/B Testing''\<rparr>"

definition other_process :: process where
  "other_process = \<lparr>dotenv_installed = True,
     os_environ = [''OPENAI_API_KEY'' \<mapsto> ''sk-other'', ''HOME'' \<mapsto> ''/root''],
     dotenv_file = Map.empty, underwriting = Some ''1.0''\<rparr>"

definition restated_ui :: frontend where
  "restated_ui = \<lparr>radio_state = [''Select Option'' \<mapsto> basic_label],
     text_state = [''Applicant ID (optional):'' \<mapsto> [],
                   ''Rules File'' \<mapsto> ''config/rules/underwriting_rules.json'',
                   ''Notes'' \<mapsto> ''not a widget of this script''],
     checkbox_state = [''Run automated tests with sample applicants'' \<mapsto> False],
     slider_state = [''Confidence Level'' \<mapsto> PyFloat False [9, 5] 0],
     clicked = Some ''Run Underwriting Evaluation''\<rparr>"

definition ticked_basic_ui :: frontend where
  "ticked_basic_ui = \<lparr>radio_state = [''Select Option'' \<mapsto> basic_label],
     text_state = [''Applicant ID (optional):'' \<mapsto> ''APP-42'',
                   ''Rules File'' \<mapsto> ''rules/v2.json''],
     checkbox_state = [''Run automated tests with sample applicants'' \<mapsto> True],
     slider_state = Map.empty,
     clicked = Some ''Run Underwriting Evaluation''\<rparr>"

definition interactive_basic_ui :: frontend where
  "interactive_basic_ui = \<lparr>radio_state = [''Select Option'' \<mapsto> basic_label],
     text_state = Map.empty,
     checkbox_state = [''Run interactive underwriting session'' \<mapsto> True],
     slider_state = Map.empty,
     clicked = Some ''Run Underwriting Evaluation''\<rparr>"

definition ticked_ab_ui :: frontend where
  "ticked_ab_ui = \<lparr>radio_state = [''Select Option'' \<mapsto> ab_label],
     text_state = [''Variant A for comparison:'' \<mapsto> ''control'',
                   ''Variant B for comparison:'' \<mapsto> ''treatment''],
     checkbox_state = [''Run comprehensive A/B test suite'' \<mapsto> True],
     slider_state = [''Confidence Level'' \<mapsto> PyFloat False [8, 5] 0],
     clicked = Some ''Run A/B Testing''\<rparr>"

definition listing_ab_ui :: frontend where
  "listing_ab_ui = \<lparr>radio_state = [''Select Option'' \<mapsto> ab_label],
     text_state = Map.empty,
     checkbox_state = [''List available test configurations'' \<mapsto> True],
     slider_state = [''Confidence Level'' \<mapsto> PyFloat False [8] 0],
     clicked = Some ''Run A/B Testing''\<rparr>"

section \<open>Properties\<close>

subsection \<open>Auxiliary facts\<close>

lemma labels_distinct:
  "home_label \<noteq> basic_label" "home_label \<noteq> ab_label" "home_label \<noteq> about_label"
  "basic_label \<noteq> ab_label" "basic_label \<noteq> about_label" "ab_label \<noteq> about_label"
  "basic_label \<noteq> home_label" "ab_label \<noteq> home_label" "about_label \<noteq> home_label"
  "ab_label \<noteq> basic_label" "about_label \<noteq> basic_label" "about_label \<noteq> ab_label"
  by (simp_all add: home_label_def basic_label_def ab_label_def about_label_def)

lemma run_block_no_fault: "run_block None i es = (es, None)"
  by (induction es arbitrary: i) (simp_all add: st_call_def)

lemma run_block_fault:
  "i \<le> k \<Longrightarrow> k - i < length es \<Longrightarrow> run_block (Some (k, msg)) i es = (take (k - i) es, Some msg)"
proof (induction es arbitrary: i)
  case Nil
  then show ?case by simp
next
  case (Cons e es)
  show ?case
  proof (cases "k = i")
    case True
    then show ?thesis by (simp add: st_call_def)
  next
    case False
    with Cons.prems have lt: "Suc i \<le> k" and len: "k - Suc i < length es" by auto
    have "k - i = Suc (k - Suc i)" using lt by simp
    with Cons.IH [OF lt len] False show ?thesis by (simp add: st_call_def)
  qed
qed

lemma try_except_no_fault: "try_except None block = block"
  by (simp add: try_except_def run_block_no_fault)

lemma try_except_fault:
  "k < length block \<Longrightarrow>
   try_except (Some (k, msg)) block = take k block @ [Error (''Error: '' @ msg)]"
  using run_block_fault [of 0 k block msg] by (simp add: try_except_def)

lemma body_of_in_region: "body_of v (in_region (Body u) es) = (if u = v then es else [])"
  by (simp add: body_of_def in_region_def filter_map comp_def)

lemma body_of_append: "body_of v (xs @ ys) = body_of v xs @ body_of v ys"
  by (simp add: body_of_def)

lemma body_of_page_frame: "body_of v (page_frame version) = []"
  by (simp add: body_of_def page_frame_def)

lemma app1_started:
  assumes "dotenv_installed w" and "api_key w = Some k" and "k \<noteq> []"
    and "underwriting w = Some version"
  shows "app1 w ui f = \<lparr>halted = False, shown = page_frame version @ dispatch ui f, invoked = []\<rparr>"
  using assms by (simp add: app1_def py_truthy_opt_def py_truthy_def)

lemma dispatch_label:
  "menu ui = Some (label_of v) \<Longrightarrow>
   dispatch ui f =
     (case v of
        Home \<Rightarrow> in_region (Body Home) home_view
      | BasicUnderwriting \<Rightarrow> in_region (Body BasicUnderwriting) (basic_view ui f)
      | ABTesting \<Rightarrow> in_region (Body ABTesting) (ab_view ui f)
      | About \<Rightarrow> in_region (Body About) about_view)"
  by (cases v) (simp_all add: dispatch_def labels_distinct)

lemma rendered_views_stop: "rendered_views [(Startup, e)] = []"
  by (simp add: rendered_views_def body_of_def all_views_def)

lemma sample_process_started:
  "dotenv_installed sample_process" "api_key sample_process = Some ''sk-test''"
  "underwriting sample_process = Some ''1.0''"
  by (simp_all add: sample_process_def api_key_def load_dotenv_def os_getenv_def)

lemma body_of_started:
  assumes "dotenv_installed w" and "api_key w = Some k" and "k \<noteq> []"
    and "underwriting w = Some version"
  shows "body_of u (shown (app1 w ui f)) = body_of u (dispatch ui f)"
  by (simp add: app1_started [OF assms] body_of_append body_of_page_frame)

lemma views_nonempty:
  "home_view \<noteq> []" "basic_view ui f \<noteq> []" "ab_view ui f \<noteq> []" "about_view \<noteq> []"
  by (simp_all add: home_view_def basic_view_def basic_widgets_def ab_view_def ab_widgets_def
      about_view_def)

lemma body_of_dispatch_other:
  "menu ui = Some (label_of v) \<Longrightarrow> u \<noteq> v \<Longrightarrow> body_of u (dispatch ui f) = []"
  using dispatch_label [of ui v f] by (cases v) (simp_all add: body_of_in_region)

lemma body_of_dispatch_selected:
  "menu ui = Some (label_of v) \<Longrightarrow> body_of v (dispatch ui f) \<noteq> []"
  using dispatch_label [of ui v f] by (cases v) (simp_all add: body_of_in_region views_nonempty)

lemma started_flags:
  assumes "dotenv_installed w" and "api_key w = Some k" and "k \<noteq> []"
    and "underwriting w = Some version"
  shows "halted (app1 w ui f) = False" and "invoked (app1 w ui f) = []"
  by (simp_all add: app1_started [OF assms])

lemma invoked_nothing: "invoked (app1 w ui f) = []"
  by (simp add: app1_def error_and_stop_def split: option.splits)

lemma basic_body:
  assumes "dotenv_installed w" and "api_key w = Some k" and "k \<noteq> []"
    and "underwriting w = Some version"
    and "menu ui = Some basic_label"
    and "st_button ''Run Underwriting Evaluation'' ui"
  shows "body_of BasicUnderwriting (shown (app1 w ui f)) =
     basic_widgets ui @
       Spinner ''Running basic underwriting evaluation...'' # try_except f (basic_block ui)"
proof -
  from assms(5) have "menu ui = Some (label_of BasicUnderwriting)" by simp
  from dispatch_label [OF this, of f] assms(6) show ?thesis
    by (simp add: body_of_started [OF assms(1-4)] body_of_in_region basic_view_def)
qed

lemma ab_body:
  assumes "dotenv_installed w" and "api_key w = Some k" and "k \<noteq> []"
    and "underwriting w = Some version"
    and "menu ui = Some ab_label"
    and "st_button ''Run A/B Testing'' ui"
  shows "body_of ABTesting (shown (app1 w ui f)) =
     ab_widgets ui @ Spinner ''Running A/B testing...'' # try_except f (ab_block ui)"
proof -
  from assms(5) have "menu ui = Some (label_of ABTesting)" by simp
  from dispatch_label [OF this, of f] assms(6) show ?thesis
    by (simp add: body_of_started [OF assms(1-4)] body_of_in_region ab_view_def)
qed

lemma py_str_float_default: "py_str_float confidence_default = ''0.95''"
  by code_simp

lemma sample_uis:
  "menu basic_pressed_ui = Some basic_label"
  "st_button ''Run Underwriting Evaluation'' basic_pressed_ui"
  "applicant_id basic_pressed_ui = []"
  "rules_file basic_pressed_ui = default_rules_file"
  "run_test basic_pressed_ui = False"
  "run_interactive basic_pressed_ui = False"
  "menu named_pressed_ui = Some basic_label"
  "st_button ''Run Underwriting Evaluation'' named_pressed_ui"
  "applicant_id named_pressed_ui = ''APP-42''"
  "rules_file named_pressed_ui = default_rules_file"
  "run_test named_pressed_ui = False"
  "run_interactive named_pressed_ui = False"
  "menu ab_pressed_ui = Some ab_label"
  "st_button ''Run A/B Testing'' ab_pressed_ui"
  "variant_a ab_pressed_ui = ''A1''"
  "variant_b ab_pressed_ui = ''A2''"
  "confidence_level ab_pressed_ui = confidence_default"
  "comprehensive ab_pressed_ui = False"
  "list_configs ab_pressed_ui = False"
  by (simp_all add: basic_pressed_ui_def named_pressed_ui_def ab_pressed_ui_def menu_def
      st_radio_def st_button_def applicant_id_def rules_file_def st_text_input_def
      run_test_def run_interactive_def st_checkbox_def variant_a_def variant_b_def
      confidence_level_def st_slider_def comprehensive_def list_configs_def)

lemma confidence_bounds:
  "float_value confidence_min = 8 / 10" "float_value confidence_max = 99 / 100"
  "float_value confidence_default = 95 / 100"
  by (simp_all add: float_value_def confidence_min_def confidence_max_def
      confidence_default_def digits_value_def power_int_def power2_eq_square)

lemma block_lengths: "length (basic_block ui) = 4" "length (ab_block ui) = 4"
  by (simp_all add: basic_block_def ab_block_def)

lemma button_in_widgets:
  "Button ''Run Underwriting Evaluation'' \<in> set (basic_widgets ui)"
  "Button ''Run A/B Testing'' \<in> set (ab_widgets ui)"
  by (simp_all add: basic_widgets_def ab_widgets_def)

lemma foldl_digits:
  "foldl (\<lambda>a d. 10 * a + d) a ds = a * 10 ^ length ds + foldl (\<lambda>a d. 10 * a + d) (0::nat) ds"
proof (induction ds arbitrary: a)
  case Nil
  show ?case by simp
next
  case (Cons d ds)
  have "foldl (\<lambda>a d. 10 * a + d) a (d # ds) = foldl (\<lambda>a d. 10 * a + d) (10 * a + d) ds"
    by simp
  also have "\<dots> = (10 * a + d) * 10 ^ length ds + foldl (\<lambda>a d. 10 * a + d) 0 ds"
    by (rule Cons.IH)
  also have "foldl (\<lambda>a d. 10 * a + d) 0 (d # ds) = d * 10 ^ length ds + foldl (\<lambda>a d. 10 * a + d) 0 ds"
    using Cons.IH [of d] by simp
  ultimately show ?case
    by (simp add: algebra_simps)
qed

lemma digits_value_Cons:
  "digits_value (d # ds) = d * 10 ^ length ds + digits_value ds"
  using foldl_digits [of d ds] by (simp add: digits_value_def)

lemma digits_value_upper:
  "list_all (\<lambda>c. c < 10) ds \<Longrightarrow> digits_value ds < 10 ^ length ds"
proof (induction ds)
  case Nil
  show ?case by (simp add: digits_value_def)
next
  case (Cons d ds)
  then have d: "d \<le> 9" and r: "digits_value ds < 10 ^ length ds" by simp_all
  define P :: nat where "P = 10 ^ length ds"
  from d have "d * P \<le> 9 * P" by (rule mult_right_mono) simp
  moreover from r have "digits_value ds < P" by (simp add: P_def)
  ultimately have "d * P + digits_value ds < 10 * P" by linarith
  then show ?case by (simp add: digits_value_Cons P_def)
qed

lemma digits_value_lower:
  "d \<noteq> 0 \<Longrightarrow> 10 ^ length ds \<le> digits_value (d # ds)"
proof -
  assume "d \<noteq> 0"
  then have "(10::nat) ^ length ds \<le> d * 10 ^ length ds"
    by simp
  then show ?thesis by (simp add: digits_value_Cons trans_le_add1)
qed

lemma float_wf_in_range:
  assumes wf: "float_wf x"
    and lo: "8 / 10 \<le> float_value x" and hi: "float_value x \<le> 99 / 100"
  shows "\<not> negative x \<and> digits x \<noteq> [] \<and> decpt x = 0"
proof -
  define n where "n = length (digits x)"
  define m :: rat where "m = of_nat (digits_value (digits x)) * power_int 10 (decpt x - int n)"
  have m0: "0 \<le> m" by (simp add: m_def)
  have val: "float_value x = (if negative x then - m else m)"
    by (simp add: float_value_def m_def n_def Let_def)
  from lo m0 val have pos: "\<not> negative x" by (auto split: if_splits)
  with val lo hi have mlo: "8 / 10 \<le> m" and mhi: "m \<le> 99 / 100" by simp_all
  have ne: "digits x \<noteq> []"
  proof
    assume "digits x = []"
    then have "m = 0" by (simp add: m_def digits_value_def)
    with mlo show False by simp
  qed
  then obtain d ds where ds: "digits x = d # ds" by (cases "digits x") auto
  with wf have d0: "d \<noteq> 0" and all: "list_all (\<lambda>c. c < 10) (digits x)"
    by (simp_all add: float_wf_def)
  have n: "n = Suc (length ds)" by (simp add: n_def ds)
  have low: "(10::rat) ^ length ds \<le> of_nat (digits_value (digits x))"
  proof -
    from digits_value_lower [OF d0, of ds] have "10 ^ length ds \<le> digits_value (digits x)"
      by (simp add: ds)
    then have "(of_nat (10 ^ length ds) :: rat) \<le> of_nat (digits_value (digits x))"
      by (simp only: of_nat_le_iff)
    then show ?thesis by simp
  qed
  have upp: "(of_nat (digits_value (digits x)) :: rat) < 10 ^ n"
  proof -
    from digits_value_upper [OF all] have "digits_value (digits x) < 10 ^ n"
      by (simp add: n_def)
    then have "(of_nat (digits_value (digits x)) :: rat) < of_nat (10 ^ n)"
      by (simp only: of_nat_less_iff)
    then show ?thesis by simp
  qed
  have p: "decpt x = 0"
  proof (rule ccontr)
    assume "decpt x \<noteq> 0"
    then consider "1 \<le> decpt x" | "decpt x \<le> - 1" by linarith
    then show False
    proof cases
      case 1
      then have "- int (length ds) \<le> decpt x - int n" by (simp add: n)
      then have "power_int (10::rat) (- int (length ds)) \<le> power_int 10 (decpt x - int n)"
        by (rule power_int_increasing) simp
      moreover have "(0::rat) \<le> power_int 10 (- int (length ds))" by simp
      ultimately have "(10::rat) ^ length ds * power_int 10 (- int (length ds)) \<le> m"
        unfolding m_def using low by (intro mult_mono) simp_all
      moreover have "(10::rat) ^ length ds * power_int 10 (- int (length ds)) = 1"
        by (simp add: power_int_minus)
      ultimately show False using mhi by simp
    next
      case 2
      then have "decpt x - int n \<le> - 1 - int n" by simp
      then have le: "power_int (10::rat) (decpt x - int n) \<le> power_int 10 (- 1 - int n)"
        by (rule power_int_increasing) simp
      have "m \<le> of_nat (digits_value (digits x)) * power_int 10 (- 1 - int n)"
        unfolding m_def using le by (intro mult_left_mono) simp_all
      also have "\<dots> < 10 ^ n * power_int 10 (- 1 - int n)"
        using upp by (intro mult_strict_right_mono) simp_all
      also have "\<dots> = 1 / 10"
      proof -
        have "- 1 - int n = - int (Suc n)" by simp
        then have e: "power_int (10::rat) (- 1 - int n) = inverse (10 ^ Suc n)"
          by (simp only: power_int_minus power_int_of_nat)
        have "(10::rat) ^ n * inverse (10 ^ Suc n) = 1 / 10"
          by (simp add: field_simps)
        with e show ?thesis by (simp only:)
      qed
      finally show False using mlo by simp
    qed
  qed
  from pos ne p show ?thesis by simp
qed

lemma confidence_level_range:
  "8 / 10 \<le> float_value (confidence_level ui) \<and> float_value (confidence_level ui) \<le> 99 / 100"
  by (simp add: confidence_level_def st_slider_def float_le_def confidence_bounds
      split: option.splits)

lemma py_str_float_confidence:
  assumes "float_wf (confidence_level ui)"
  shows "py_str_float (confidence_level ui) =
     ''0.'' @ map (\<lambda>d. char_of (48 + d)) (digits (confidence_level ui))"
proof -
  from float_wf_in_range [OF assms] confidence_level_range [of ui]
  have "\<not> negative (confidence_level ui)" and "digits (confidence_level ui) \<noteq> []"
    and "decpt (confidence_level ui) = 0"
    by simp_all
  then show ?thesis
    by (simp add: py_str_float_def Let_def digits_str_def digit_char_def)
qed

lemma digit_chars:
  "char_of (48::nat) = CHR ''0''" "char_of (49::nat) = CHR ''1''"
  "char_of (50::nat) = CHR ''2''" "char_of (51::nat) = CHR ''3''"
  "char_of (52::nat) = CHR ''4''" "char_of (53::nat) = CHR ''5''"
  "char_of (54::nat) = CHR ''6''" "char_of (55::nat) = CHR ''7''"
  "char_of (56::nat) = CHR ''8''" "char_of (57::nat) = CHR ''9''"
  by code_simp+

lemma sample_slider_values:
  "float_value (PyFloat False [8, 5] 0) = 85 / 100"
  "float_value (PyFloat False [8] 0) = 8 / 10"
  by (simp_all add: float_value_def digits_value_def power_int_def power2_eq_square)

lemma ticked_uis:
  "menu ticked_basic_ui = Some basic_label"
  "st_button ''Run Underwriting Evaluation'' ticked_basic_ui"
  "applicant_id ticked_basic_ui = ''APP-42''"
  "rules_file ticked_basic_ui = ''rules/v2.json''"
  "run_test ticked_basic_ui = True"
  "run_interactive ticked_basic_ui = False"
  "menu interactive_basic_ui = Some basic_label"
  "st_button ''Run Underwriting Evaluation'' interactive_basic_ui"
  "applicant_id interactive_basic_ui = []"
  "rules_file interactive_basic_ui = ''config/rules/underwriting_rules.json''"
  "run_test interactive_basic_ui = False"
  "run_interactive interactive_basic_ui = True"
  "menu ticked_ab_ui = Some ab_label"
  "st_button ''Run A/B Testing'' ticked_ab_ui"
  "variant_a ticked_ab_ui = ''control''"
  "variant_b ticked_ab_ui = ''treatment''"
  "confidence_level ticked_ab_ui = PyFloat False [8, 5] 0"
  "comprehensive ticked_ab_ui = True"
  "list_configs ticked_ab_ui = False"
  "menu listing_ab_ui = Some ab_label"
  "st_button ''Run A/B Testing'' listing_ab_ui"
  "variant_a listing_ab_ui = []"
  "variant_b listing_ab_ui = []"
  "confidence_level listing_ab_ui = PyFloat False [8] 0"
  "comprehensive listing_ab_ui = False"
  "list_configs listing_ab_ui = True"
  by (simp_all add: ticked_basic_ui_def interactive_basic_ui_def ticked_ab_ui_def
      listing_ab_ui_def menu_def st_radio_def st_button_def applicant_id_def rules_file_def
      st_text_input_def run_test_def run_interactive_def st_checkbox_def variant_a_def
      variant_b_def confidence_level_def st_slider_def comprehensive_def list_configs_def
      default_rules_file_def float_le_def confidence_bounds sample_slider_values)

subsection \<open>Startup\<close>

text \<open>
  C1. When the environment, as line 22 reads it after \<open>load_dotenv()\<close>, has no
  \<open>OPENAI_API_KEY\<close> or an empty one, the pass displays exactly one element, an error,
  and is halted by \<open>st.stop()\<close>; no view body is rendered. The error is the one of
  line 24, or the one of line 19 when \<open>python-dotenv\<close> is not installed and the pass
  is halted before the credential is read.
\<close>

theorem missing_credential_halts:
  assumes "api_key w = None \<or> api_key w = Some []"
  shows "halted (app1 w ui f)
    \<and> shown (app1 w ui f) =
        [(Startup, Error (if dotenv_installed w then api_key_missing_msg else dotenv_missing_msg))]
    \<and> length (filter is_error (map snd (shown (app1 w ui f)))) = 1
    \<and> rendered_views (shown (app1 w ui f)) = []"
proof -
  from assms have "\<not> py_truthy_opt (api_key w)"
    by (auto simp: py_truthy_opt_def py_truthy_def)
  then have "app1 w ui f =
      error_and_stop (if dotenv_installed w then api_key_missing_msg else dotenv_missing_msg)"
    by (simp add: app1_def)
  then show ?thesis
    by (simp add: error_and_stop_def rendered_views_stop)
qed

theorem missing_credential_halts_witness:
  "(api_key no_key_process = None \<or> api_key no_key_process = Some [])
   \<and> halted (app1 no_key_process untouched_ui None)
   \<and> shown (app1 no_key_process untouched_ui None) = [(Startup, Error api_key_missing_msg)]"
proof -
  have h: "api_key no_key_process = None \<or> api_key no_key_process = Some []"
    by (simp add: api_key_def no_key_process_def load_dotenv_def os_getenv_def)
  have d: "dotenv_installed no_key_process"
    by (simp add: no_key_process_def)
  from h d missing_credential_halts [OF h, of untouched_ui None] show ?thesis
    by simp
qed

text \<open>
  C8. When the imports of lines 29 to 31 fail, the pass displays exactly one element, an
  error, and is halted before any view body is rendered. The error is the one of line 33
  when the earlier checks pass, and the one of the earlier check that fails otherwise.
\<close>

theorem missing_modules_halt:
  assumes "underwriting w = None"
  shows "halted (app1 w ui f)
    \<and> shown (app1 w ui f) =
        [(Startup, Error (if \<not> dotenv_installed w then dotenv_missing_msg
                          else if \<not> py_truthy_opt (api_key w) then api_key_missing_msg
                          else import_failed_msg))]
    \<and> length (filter is_error (map snd (shown (app1 w ui f)))) = 1
    \<and> rendered_views (shown (app1 w ui f)) = []"
proof -
  from assms have "app1 w ui f =
      error_and_stop (if \<not> dotenv_installed w then dotenv_missing_msg
                      else if \<not> py_truthy_opt (api_key w) then api_key_missing_msg
                      else import_failed_msg)"
    by (simp add: app1_def)
  then show ?thesis
    by (simp add: error_and_stop_def rendered_views_stop)
qed

theorem missing_modules_halt_witness:
  "underwriting no_modules_process = None
   \<and> halted (app1 no_modules_process untouched_ui None)
   \<and> shown (app1 no_modules_process untouched_ui None) = [(Startup, Error import_failed_msg)]"
proof -
  have h: "underwriting no_modules_process = None"
    by (simp add: no_modules_process_def)
  have k: "py_truthy_opt (api_key no_modules_process)"
    by (simp add: api_key_def no_modules_process_def load_dotenv_def os_getenv_def
        py_truthy_opt_def py_truthy_def)
  have d: "dotenv_installed no_modules_process"
    by (simp add: no_modules_process_def)
  from h k d missing_modules_halt [OF h, of untouched_ui None] show ?thesis
    by simp
qed

subsection \<open>Navigation\<close>

text \<open>
  C2. Once the startup checks have passed, for each of the four labels the menu can hold,
  the body of the view with that label is displayed and the bodies of the other three
  views display nothing.
\<close>

theorem one_view_renders:
  assumes "dotenv_installed w" and "api_key w = Some k" and "k \<noteq> []"
    and "underwriting w = Some version"
    and "menu ui = Some (label_of v)"
  shows "rendered_views (shown (app1 w ui f)) = [v]
    \<and> body_of v (shown (app1 w ui f)) \<noteq> []
    \<and> (\<forall>u. u \<noteq> v \<longrightarrow> body_of u (shown (app1 w ui f)) = [])"
proof -
  note b = body_of_started [OF assms(1-4)]
  have sel: "body_of v (shown (app1 w ui f)) \<noteq> []"
    by (simp add: b body_of_dispatch_selected [OF assms(5)])
  have oth: "\<And>u. u \<noteq> v \<Longrightarrow> body_of u (shown (app1 w ui f)) = []"
    by (simp add: b body_of_dispatch_other [OF assms(5)])
  have "rendered_views (shown (app1 w ui f)) = filter (\<lambda>u. u = v) all_views"
    unfolding rendered_views_def
    by (rule filter_cong) (use sel oth in auto)
  also have "\<dots> = [v]"
    by (cases v) (simp_all add: all_views_def)
  finally show ?thesis using sel oth by blast
qed

theorem one_view_renders_witness:
  "dotenv_installed sample_process \<and> api_key sample_process = Some ''sk-test''
   \<and> ''sk-test'' \<noteq> [] \<and> underwriting sample_process = Some ''1.0''
   \<and> menu untouched_ui = Some (label_of Home)
   \<and> rendered_views (shown (app1 sample_process untouched_ui None)) = [Home]"
proof -
  have m: "menu untouched_ui = Some (label_of Home)"
    by (simp add: menu_def st_radio_def untouched_ui_def menu_options_def)
  have n: "''sk-test'' \<noteq> []" by simp
  from one_view_renders [OF sample_process_started(1,2) n sample_process_started(3) m, of None]
    sample_process_started m
  show ?thesis by simp
qed

subsection \<open>The trigger actions\<close>

text \<open>
  C3. In the Basic Underwriting view, when the applicant id is empty and the rules file
  holds its default, pressing the button (in a pass where no display call raises)
  displays the success message and the applicant id line with the placeholder
  \<open>N/A\<close>; the pass is not halted.
\<close>

theorem empty_applicant_id_shows_placeholder:
  assumes "dotenv_installed w" and "api_key w = Some k" and "k \<noteq> []"
    and "underwriting w = Some version"
    and "menu ui = Some basic_label"
    and "st_button ''Run Underwriting Evaluation'' ui"
    and "applicant_id ui = []"
    and "rules_file ui = default_rules_file"
  shows "\<not> halted (app1 w ui None)
    \<and> body_of BasicUnderwriting (shown (app1 w ui None)) =
        basic_widgets ui @
        [Spinner ''Running basic underwriting evaluation...'',
         Success basic_success_msg,
         Info ''Applicant ID: N/A'',
         Info ''Rules File: config/rules/underwriting_rules.json'',
         Info (''Run Test: '' @ py_str_bool (run_test ui)
               @ '', Run Interactive: '' @ py_str_bool (run_interactive ui))]"
  using assms(7,8)
  by (simp add: started_flags [OF assms(1-4)] basic_body [OF assms(1-6)] try_except_no_fault
      basic_block_def py_truthy_def default_rules_file_def)

theorem empty_applicant_id_shows_placeholder_witness:
  "dotenv_installed sample_process \<and> api_key sample_process = Some ''sk-test''
   \<and> ''sk-test'' \<noteq> [] \<and> underwriting sample_process = Some ''1.0''
   \<and> menu basic_pressed_ui = Some basic_label
   \<and> st_button ''Run Underwriting Evaluation'' basic_pressed_ui
   \<and> applicant_id basic_pressed_ui = []
   \<and> rules_file basic_pressed_ui = default_rules_file
   \<and> body_of BasicUnderwriting (shown (app1 sample_process basic_pressed_ui None)) =
        basic_widgets basic_pressed_ui @
        [Spinner ''Running basic underwriting evaluation...'',
         Success basic_success_msg,
         Info ''Applicant ID: N/A'',
         Info ''Rules File: config/rules/underwriting_rules.json'',
         Info ''Run Test: False, Run Interactive: False'']"
proof -
  have n: "''sk-test'' \<noteq> []" by simp
  from empty_applicant_id_shows_placeholder
    [OF sample_process_started(1,2) n sample_process_started(3) sample_uis(1-4)]
    sample_process_started sample_uis(1-6)
  show ?thesis by (simp add: py_str_bool_def)
qed

text \<open>
  C4. In the A/B Testing view, with the variants \<open>A1\<close> and \<open>A2\<close> and the confidence
  level at its default \<open>0.95\<close>, pressing the button (in a pass where no display call
  raises) displays the success message, a line with both variants and a line with the
  confidence printed as \<open>0.95\<close>.
\<close>

theorem ab_trigger_echoes_variants_and_confidence:
  assumes "dotenv_installed w" and "api_key w = Some k" and "k \<noteq> []"
    and "underwriting w = Some version"
    and "menu ui = Some ab_label"
    and "st_button ''Run A/B Testing'' ui"
    and "variant_a ui = ''A1''" and "variant_b ui = ''A2''"
    and "confidence_level ui = confidence_default"
  shows "\<not> halted (app1 w ui None)
    \<and> body_of ABTesting (shown (app1 w ui None)) =
        ab_widgets ui @
        [Spinner ''Running A/B testing...'',
         Success ab_success_msg,
         Info ''Variants Compared: A1 vs A2'',
         Info (''Comprehensive: '' @ py_str_bool (comprehensive ui) @ '', Confidence: 0.95''),
         Info (''List Configs: '' @ py_str_bool (list_configs ui))]"
  using assms(7-9)
  by (simp add: started_flags [OF assms(1-4)] ab_body [OF assms(1-6)] try_except_no_fault
      ab_block_def py_str_float_default)

theorem ab_trigger_echoes_variants_and_confidence_witness:
  "dotenv_installed sample_process \<and> api_key sample_process = Some ''sk-test''
   \<and> ''sk-test'' \<noteq> [] \<and> underwriting sample_process = Some ''1.0''
   \<and> menu ab_pressed_ui = Some ab_label
   \<and> st_button ''Run A/B Testing'' ab_pressed_ui
   \<and> variant_a ab_pressed_ui = ''A1'' \<and> variant_b ab_pressed_ui = ''A2''
   \<and> confidence_level ab_pressed_ui = confidence_default
   \<and> body_of ABTesting (shown (app1 sample_process ab_pressed_ui None)) =
        ab_widgets ab_pressed_ui @
        [Spinner ''Running A/B testing...'',
         Success ab_success_msg,
         Info ''Variants Compared: A1 vs A2'',
         Info ''Comprehensive: False, Confidence: 0.95'',
         Info ''List Configs: False'']"
proof -
  have n: "''sk-test'' \<noteq> []" by simp
  from ab_trigger_echoes_variants_and_confidence
    [OF sample_process_started(1,2) n sample_process_started(3) sample_uis(13-17)]
    sample_process_started sample_uis(13-19)
  show ?thesis by (simp add: py_str_bool_def)
qed

text \<open>
  C5. Whatever the browser sends for the slider, the confidence level the script
  receives lies between \<open>0.8\<close> and \<open>0.99\<close>; it is \<open>0.95\<close> while the slider is
  untouched; and a value outside the range is never the value the script receives.
  The trigger action reads the confidence only through \<open>confidence_level\<close>.
\<close>

theorem confidence_level_in_range:
  "8 / 10 \<le> float_value (confidence_level ui)
   \<and> float_value (confidence_level ui) \<le> 99 / 100
   \<and> confidence_level (ui\<lparr>slider_state := Map.empty\<rparr>) = confidence_default
   \<and> float_value confidence_default = 95 / 100
   \<and> (\<forall>v. slider_state ui ''Confidence Level'' = Some v
          \<and> (float_value v < 8 / 10 \<or> 99 / 100 < float_value v)
        \<longrightarrow> confidence_level ui \<noteq> v)"
proof -
  have range: "8 / 10 \<le> float_value (confidence_level ui)
      \<and> float_value (confidence_level ui) \<le> 99 / 100"
    by (simp add: confidence_level_def st_slider_def float_le_def confidence_bounds
        split: option.splits)
  have dflt: "confidence_level (ui\<lparr>slider_state := Map.empty\<rparr>) = confidence_default"
    by (simp add: confidence_level_def st_slider_def)
  from range dflt show ?thesis
    by (auto simp: confidence_bounds)
qed

theorem confidence_level_in_range_witness:
  "slider_state out_of_range_ui ''Confidence Level'' = Some (PyFloat False [1, 5] 1)
   \<and> 99 / 100 < float_value (PyFloat False [1, 5] 1)
   \<and> confidence_level out_of_range_ui \<noteq> PyFloat False [1, 5] 1
   \<and> confidence_level out_of_range_ui = confidence_default"
proof -
  have s: "slider_state out_of_range_ui ''Confidence Level'' = Some (PyFloat False [1, 5] 1)"
    by (simp add: out_of_range_ui_def)
  have v: "99 / 100 < float_value (PyFloat False [1, 5] 1)"
    by (simp add: float_value_def digits_value_def power_int_def)
  have d: "confidence_level out_of_range_ui = confidence_default"
    using v by (simp add: confidence_level_def st_slider_def out_of_range_ui_def float_le_def
        confidence_bounds)
  from confidence_level_in_range [of out_of_range_ui] s v d show ?thesis
    by blast
qed

text \<open>
  C6. No pass calls a collaborator. In both interactive views, for all values of the
  inputs, pressing the button (in a pass where no display call raises) displays the
  fixed success message and then the lines that echo the inputs: the applicant id
  (\<open>N/A\<close> for the empty one), the rules file and the variants as typed, each checkbox
  as \<open>True\<close> or \<open>False\<close>, and the confidence as \<open>0.\<close> followed by its digits. The
  strings are written out in the statement. The confidence line is stated for a
  confidence that is the \<open>repr\<close> of a float, as every value of a slider is.
\<close>

theorem trigger_is_demo_stub:
  assumes "dotenv_installed w" and "api_key w = Some k" and "k \<noteq> []"
    and "underwriting w = Some version"
  shows "invoked (app1 w ui f) = []
    \<and> (menu ui = Some basic_label \<and> st_button ''Run Underwriting Evaluation'' ui \<longrightarrow>
         body_of BasicUnderwriting (shown (app1 w ui None)) =
           basic_widgets ui @
           [Spinner ''Running basic underwriting evaluation...'',
            Success ([CHR 0xE2, CHR 0x9C, CHR 0x85]
                     @ '' Underwriting evaluation completed (demo).''),
            Info (''Applicant ID: '' @ (if applicant_id ui = [] then ''N/A'' else applicant_id ui)),
            Info (''Rules File: '' @ rules_file ui),
            Info (''Run Test: '' @ (if run_test ui then ''True'' else ''False'')
                  @ '', Run Interactive: ''
                  @ (if run_interactive ui then ''True'' else ''False''))])
    \<and> (menu ui = Some ab_label \<and> st_button ''Run A/B Testing'' ui
         \<and> float_wf (confidence_level ui) \<longrightarrow>
         body_of ABTesting (shown (app1 w ui None)) =
           ab_widgets ui @
           [Spinner ''Running A/B testing...'',
            Success ([CHR 0xE2, CHR 0x9C, CHR 0x85] @ '' A/B testing completed (demo).''),
            Info (''Variants Compared: '' @ variant_a ui @ '' vs '' @ variant_b ui),
            Info (''Comprehensive: '' @ (if comprehensive ui then ''True'' else ''False'')
                  @ '', Confidence: 0.''
                  @ map (\<lambda>d. char_of (48 + d)) (digits (confidence_level ui))),
            Info (''List Configs: '' @ (if list_configs ui then ''True'' else ''False''))])"
proof (intro conjI impI)
  show "invoked (app1 w ui f) = []"
    by (rule invoked_nothing)
next
  assume "menu ui = Some basic_label \<and> st_button ''Run Underwriting Evaluation'' ui"
  then have m: "menu ui = Some basic_label" and b: "st_button ''Run Underwriting Evaluation'' ui"
    by simp_all
  show "body_of BasicUnderwriting (shown (app1 w ui None)) =
      basic_widgets ui @
      [Spinner ''Running basic underwriting evaluation...'',
       Success ([CHR 0xE2, CHR 0x9C, CHR 0x85] @ '' Underwriting evaluation completed (demo).''),
       Info (''Applicant ID: '' @ (if applicant_id ui = [] then ''N/A'' else applicant_id ui)),
       Info (''Rules File: '' @ rules_file ui),
       Info (''Run Test: '' @ (if run_test ui then ''True'' else ''False'')
             @ '', Run Interactive: '' @ (if run_interactive ui then ''True'' else ''False''))]"
    by (simp add: basic_body [OF assms m b] try_except_no_fault basic_block_def py_truthy_def
        py_str_bool_def basic_success_msg_def)
next
  assume "menu ui = Some ab_label \<and> st_button ''Run A/B Testing'' ui
      \<and> float_wf (confidence_level ui)"
  then have m: "menu ui = Some ab_label" and b: "st_button ''Run A/B Testing'' ui"
    and c: "float_wf (confidence_level ui)"
    by simp_all
  show "body_of ABTesting (shown (app1 w ui None)) =
      ab_widgets ui @
      [Spinner ''Running A/B testing...'',
       Success ([CHR 0xE2, CHR 0x9C, CHR 0x85] @ '' A/B testing completed (demo).''),
       Info (''Variants Compared: '' @ variant_a ui @ '' vs '' @ variant_b ui),
       Info (''Comprehensive: '' @ (if comprehensive ui then ''True'' else ''False'')
             @ '', Confidence: 0.''
             @ map (\<lambda>d. char_of (48 + d)) (digits (confidence_level ui))),
       Info (''List Configs: '' @ (if list_configs ui then ''True'' else ''False''))]"
    by (simp add: ab_body [OF assms m b] try_except_no_fault ab_block_def py_str_bool_def
        ab_success_msg_def py_str_float_confidence [OF c])
qed

theorem trigger_is_demo_stub_witness:
  "dotenv_installed sample_process \<and> api_key sample_process = Some ''sk-test''
   \<and> ''sk-test'' \<noteq> [] \<and> underwriting sample_process = Some ''1.0''
   \<and> menu ticked_basic_ui = Some basic_label
   \<and> st_button ''Run Underwriting Evaluation'' ticked_basic_ui
   \<and> invoked (app1 sample_process ticked_basic_ui None) = []
   \<and> body_of BasicUnderwriting (shown (app1 sample_process ticked_basic_ui None)) =
        [Header ([CHR 0xF0, CHR 0x9F, CHR 0xA7, CHR 0xBE] @ '' Basic Underwriting Evaluation''),
         TextInput ''Applicant ID (optional):'' ''APP-42'',
         TextInput ''Rules File'' ''rules/v2.json'',
         Checkbox ''Run automated tests with sample applicants'' True,
         Checkbox ''Run interactive underwriting session'' False,
         Button ''Run Underwriting Evaluation'',
         Spinner ''Running basic underwriting evaluation...'',
         Success ([CHR 0xE2, CHR 0x9C, CHR 0x85] @ '' Underwriting evaluation completed (demo).''),
         Info ''Applicant ID: APP-42'',
         Info ''Rules File: rules/v2.json'',
         Info ''Run Test: True, Run Interactive: False'']
   \<and> menu interactive_basic_ui = Some basic_label
   \<and> st_button ''Run Underwriting Evaluation'' interactive_basic_ui
   \<and> invoked (app1 sample_process interactive_basic_ui None) = []
   \<and> body_of BasicUnderwriting (shown (app1 sample_process interactive_basic_ui None)) =
        [Header ([CHR 0xF0, CHR 0x9F, CHR 0xA7, CHR 0xBE] @ '' Basic Underwriting Evaluation''),
         TextInput ''Applicant ID (optional):'' [],
         TextInput ''Rules File'' ''config/rules/underwriting_rules.json'',
         Checkbox ''Run automated tests with sample applicants'' False,
         Checkbox ''Run interactive underwriting session'' True,
         Button ''Run Underwriting Evaluation'',
         Spinner ''Running basic underwriting evaluation...'',
         Success ([CHR 0xE2, CHR 0x9C, CHR 0x85] @ '' Underwriting evaluation completed (demo).''),
         Info ''Applicant ID: N/A'',
         Info ''Rules File: config/rules/underwriting_rules.json'',
         Info ''Run Test: False, Run Interactive: True'']
   \<and> menu ticked_ab_ui = Some ab_label
   \<and> st_button ''Run A/B Testing'' ticked_ab_ui
   \<and> float_wf (confidence_level ticked_ab_ui)
   \<and> invoked (app1 sample_process ticked_ab_ui None) = []
   \<and> body_of ABTesting (shown (app1 sample_process ticked_ab_ui None)) =
        [Header ([CHR 0xF0, CHR 0x9F, CHR 0xA7, CHR 0xAA] @ '' A/B Testing Module''),
         Checkbox ''List available test configurations'' False,
         Checkbox ''Run comprehensive A/B test suite'' True,
         TextInput ''Variant A for comparison:'' ''control'',
         TextInput ''Variant B for comparison:'' ''treatment'',
         Slider ''Confidence Level'' (PyFloat False [8] 0) (PyFloat False [9, 9] 0)
           (PyFloat False [8, 5] 0),
         Button ''Run A/B Testing'',
         Spinner ''Running A/B testing...'',
         Success ([CHR 0xE2, CHR 0x9C, CHR 0x85] @ '' A/B testing completed (demo).''),
         Info ''Variants Compared: control vs treatment'',
         Info ''Comprehensive: True, Confidence: 0.85'',
         Info ''List Configs: False'']
   \<and> menu listing_ab_ui = Some ab_label
   \<and> st_button ''Run A/B Testing'' listing_ab_ui
   \<and> float_wf (confidence_level listing_ab_ui)
   \<and> invoked (app1 sample_process listing_ab_ui None) = []
   \<and> body_of ABTesting (shown (app1 sample_process listing_ab_ui None)) =
        [Header ([CHR 0xF0, CHR 0x9F, CHR 0xA7, CHR 0xAA] @ '' A/B Testing Module''),
         Checkbox ''List available test configurations'' True,
         Checkbox ''Run comprehensive A/B test suite'' False,
         TextInput ''Variant A for comparison:'' [],
         TextInput ''Variant B for comparison:'' [],
         Slider ''Confidence Level'' (PyFloat False [8] 0) (PyFloat False [9, 9] 0)
           (PyFloat False [8] 0),
         Button ''Run A/B Testing'',
         Spinner ''Running A/B testing...'',
         Success ([CHR 0xE2, CHR 0x9C, CHR 0x85] @ '' A/B testing completed (demo).''),
         Info ''Variants Compared:  vs '',
         Info ''Comprehensive: False, Confidence: 0.8'',
         Info ''List Configs: True'']"
proof -
  have n: "''sk-test'' \<noteq> []" by simp
  note t = trigger_is_demo_stub [OF sample_process_started(1,2) n sample_process_started(3)]
  have wf: "float_wf (confidence_level ticked_ab_ui)" "float_wf (confidence_level listing_ab_ui)"
    by (simp_all add: ticked_uis float_wf_def)
  have b1: "body_of BasicUnderwriting (shown (app1 sample_process ticked_basic_ui None)) =
        [Header ([CHR 0xF0, CHR 0x9F, CHR 0xA7, CHR 0xBE] @ '' Basic Underwriting Evaluation''),
         TextInput ''Applicant ID (optional):'' ''APP-42'',
         TextInput ''Rules File'' ''rules/v2.json'',
         Checkbox ''Run automated tests with sample applicants'' True,
         Checkbox ''Run interactive underwriting session'' False,
         Button ''Run Underwriting Evaluation'',
         Spinner ''Running basic underwriting evaluation...'',
         Success ([CHR 0xE2, CHR 0x9C, CHR 0x85] @ '' Underwriting evaluation completed (demo).''),
         Info ''Applicant ID: APP-42'',
         Info ''Rules File: rules/v2.json'',
         Info ''Run Test: True, Run Interactive: False'']"
    using t [of ticked_basic_ui None] by (simp add: ticked_uis basic_widgets_def)
  have b2: "body_of BasicUnderwriting (shown (app1 sample_process interactive_basic_ui None)) =
        [Header ([CHR 0xF0, CHR 0x9F, CHR 0xA7, CHR 0xBE] @ '' Basic Underwriting Evaluation''),
         TextInput ''Applicant ID (optional):'' [],
         TextInput ''Rules File'' ''config/rules/underwriting_rules.json'',
         Checkbox ''Run automated tests with sample applicants'' False,
         Checkbox ''Run interactive underwriting session'' True,
         Button ''Run Underwriting Evaluation'',
         Spinner ''Running basic underwriting evaluation...'',
         Success ([CHR 0xE2, CHR 0x9C, CHR 0x85] @ '' Underwriting evaluation completed (demo).''),
         Info ''Applicant ID: N/A'',
         Info ''Rules File: config/rules/underwriting_rules.json'',
         Info ''Run Test: False, Run Interactive: True'']"
    using t [of interactive_basic_ui None] by (simp add: ticked_uis basic_widgets_def)
  have a1: "body_of ABTesting (shown (app1 sample_process ticked_ab_ui None)) =
        [Header ([CHR 0xF0, CHR 0x9F, CHR 0xA7, CHR 0xAA] @ '' A/B Testing Module''),
         Checkbox ''List available test configurations'' False,
         Checkbox ''Run comprehensive A/B test suite'' True,
         TextInput ''Variant A for comparison:'' ''control'',
         TextInput ''Variant B for comparison:'' ''treatment'',
         Slider ''Confidence Level'' (PyFloat False [8] 0) (PyFloat False [9, 9] 0)
           (PyFloat False [8, 5] 0),
         Button ''Run A/B Testing'',
         Spinner ''Running A/B testing...'',
         Success ([CHR 0xE2, CHR 0x9C, CHR 0x85] @ '' A/B testing completed (demo).''),
         Info ''Variants Compared: control vs treatment'',
         Info ''Comprehensive: True, Confidence: 0.85'',
         Info ''List Configs: False'']"
    using t [of ticked_ab_ui None] wf(1)
    by (simp add: ticked_uis ab_widgets_def confidence_min_def confidence_max_def digit_chars)
  have a2: "body_of ABTesting (shown (app1 sample_process listing_ab_ui None)) =
        [Header ([CHR 0xF0, CHR 0x9F, CHR 0xA7, CHR 0xAA] @ '' A/B Testing Module''),
         Checkbox ''List available test configurations'' True,
         Checkbox ''Run comprehensive A/B test suite'' False,
         TextInput ''Variant A for comparison:'' [],
         TextInput ''Variant B for comparison:'' [],
         Slider ''Confidence Level'' (PyFloat False [8] 0) (PyFloat False [9, 9] 0)
           (PyFloat False [8] 0),
         Button ''Run A/B Testing'',
         Spinner ''Running A/B testing...'',
         Success ([CHR 0xE2, CHR 0x9C, CHR 0x85] @ '' A/B testing completed (demo).''),
         Info ''Variants Compared:  vs '',
         Info ''Comprehensive: False, Confidence: 0.8'',
         Info ''List Configs: True'']"
    using t [of listing_ab_ui None] wf(2)
    by (simp add: ticked_uis ab_widgets_def confidence_min_def confidence_max_def digit_chars)
  have i: "invoked (app1 sample_process ticked_basic_ui None) = []"
    "invoked (app1 sample_process interactive_basic_ui None) = []"
    "invoked (app1 sample_process ticked_ab_ui None) = []"
    "invoked (app1 sample_process listing_ab_ui None) = []"
    using t [of ticked_basic_ui None] t [of interactive_basic_ui None]
      t [of ticked_ab_ui None] t [of listing_ab_ui None]
    by simp_all
  from sample_process_started n ticked_uis(1,2,7,8,13,14,20,21) wf b1 b2 a1 a2 i
  show ?thesis by simp
qed

text \<open>
  C7. In both interactive views, when a statement of the \<open>try\<close> block raises an
  exception with message \<open>msg\<close>, what the block displayed before it stays, the error
  \<open>Error: msg\<close> is displayed after it, the pass is not halted, the view's button is
  still displayed, and a pass with the same inputs in which nothing raises displays
  the whole block.
\<close>

theorem action_fault_is_caught:
  assumes "dotenv_installed w" and "api_key w = Some k" and "k \<noteq> []"
    and "underwriting w = Some version"
  shows "(menu ui = Some basic_label \<and> st_button ''Run Underwriting Evaluation'' ui
          \<and> i < length (basic_block ui) \<longrightarrow>
            body_of BasicUnderwriting (shown (app1 w ui (Some (i, msg)))) =
              basic_widgets ui @
              Spinner ''Running basic underwriting evaluation...'' #
              take i (basic_block ui) @ [Error (''Error: '' @ msg)]
          \<and> \<not> halted (app1 w ui (Some (i, msg)))
          \<and> Button ''Run Underwriting Evaluation''
               \<in> set (body_of BasicUnderwriting (shown (app1 w ui (Some (i, msg)))))
          \<and> body_of BasicUnderwriting (shown (app1 w ui None)) =
              basic_widgets ui @
              Spinner ''Running basic underwriting evaluation...'' # basic_block ui)
    \<and> (menu ui = Some ab_label \<and> st_button ''Run A/B Testing'' ui
          \<and> i < length (ab_block ui) \<longrightarrow>
            body_of ABTesting (shown (app1 w ui (Some (i, msg)))) =
              ab_widgets ui @
              Spinner ''Running A/B testing...'' #
              take i (ab_block ui) @ [Error (''Error: '' @ msg)]
          \<and> \<not> halted (app1 w ui (Some (i, msg)))
          \<and> Button ''Run A/B Testing''
               \<in> set (body_of ABTesting (shown (app1 w ui (Some (i, msg)))))
          \<and> body_of ABTesting (shown (app1 w ui None)) =
              ab_widgets ui @ Spinner ''Running A/B testing...'' # ab_block ui)"
proof (intro conjI impI)
  assume a: "menu ui = Some basic_label \<and> st_button ''Run Underwriting Evaluation'' ui
      \<and> i < length (basic_block ui)"
  then have m: "menu ui = Some basic_label" and b: "st_button ''Run Underwriting Evaluation'' ui"
    and i: "i < length (basic_block ui)"
    by simp_all
  note body = basic_body [OF assms m b]
  show "body_of BasicUnderwriting (shown (app1 w ui (Some (i, msg)))) =
      basic_widgets ui @
      Spinner ''Running basic underwriting evaluation...'' #
      take i (basic_block ui) @ [Error (''Error: '' @ msg)]"
    by (simp add: body try_except_fault [OF i])
  show "\<not> halted (app1 w ui (Some (i, msg)))"
    by (simp add: started_flags [OF assms])
  show "Button ''Run Underwriting Evaluation''
      \<in> set (body_of BasicUnderwriting (shown (app1 w ui (Some (i, msg)))))"
    by (simp add: body button_in_widgets)
  show "body_of BasicUnderwriting (shown (app1 w ui None)) =
      basic_widgets ui @ Spinner ''Running basic underwriting evaluation...'' # basic_block ui"
    by (simp add: body try_except_no_fault)
next
  assume a: "menu ui = Some ab_label \<and> st_button ''Run A/B Testing'' ui
      \<and> i < length (ab_block ui)"
  then have m: "menu ui = Some ab_label" and b: "st_button ''Run A/B Testing'' ui"
    and i: "i < length (ab_block ui)"
    by simp_all
  note body = ab_body [OF assms m b]
  show "body_of ABTesting (shown (app1 w ui (Some (i, msg)))) =
      ab_widgets ui @
      Spinner ''Running A/B testing...'' # take i (ab_block ui) @ [Error (''Error: '' @ msg)]"
    by (simp add: body try_except_fault [OF i])
  show "\<not> halted (app1 w ui (Some (i, msg)))"
    by (simp add: started_flags [OF assms])
  show "Button ''Run A/B Testing''
      \<in> set (body_of ABTesting (shown (app1 w ui (Some (i, msg)))))"
    by (simp add: body button_in_widgets)
  show "body_of ABTesting (shown (app1 w ui None)) =
      ab_widgets ui @ Spinner ''Running A/B testing...'' # ab_block ui"
    by (simp add: body try_except_no_fault)
qed

theorem action_fault_is_caught_witness:
  "dotenv_installed sample_process \<and> api_key sample_process = Some ''sk-test''
   \<and> ''sk-test'' \<noteq> [] \<and> underwriting sample_process = Some ''1.0''
   \<and> menu named_pressed_ui = Some basic_label
   \<and> st_button ''Run Underwriting Evaluation'' named_pressed_ui
   \<and> (2::nat) < length (basic_block named_pressed_ui)
   \<and> body_of BasicUnderwriting
        (shown (app1 sample_process named_pressed_ui (Some (2, ''connection lost'')))) =
        basic_widgets named_pressed_ui @
        [Spinner ''Running basic underwriting evaluation...'',
         Success basic_success_msg,
         Info ''Applicant ID: APP-42'',
         Error ''Error: connection lost'']
   \<and> \<not> halted (app1 sample_process named_pressed_ui (Some (2, ''connection lost'')))
   \<and> menu ab_pressed_ui = Some ab_label
   \<and> st_button ''Run A/B Testing'' ab_pressed_ui
   \<and> (0::nat) < length (ab_block ab_pressed_ui)
   \<and> body_of ABTesting
        (shown (app1 sample_process ab_pressed_ui (Some (0, ''connection lost'')))) =
        ab_widgets ab_pressed_ui @
        [Spinner ''Running A/B testing...'', Error ''Error: connection lost'']
   \<and> \<not> halted (app1 sample_process ab_pressed_ui (Some (0, ''connection lost'')))"
proof -
  have n: "''sk-test'' \<noteq> []" by simp
  note t = action_fault_is_caught [OF sample_process_started(1,2) n sample_process_started(3)]
  have b: "take 2 (basic_block named_pressed_ui) =
      [Success basic_success_msg, Info ''Applicant ID: APP-42'']"
    by (simp add: basic_block_def sample_uis py_truthy_def)
  from t [of named_pressed_ui 2 "''connection lost''"] t [of ab_pressed_ui 0 "''connection lost''"]
    sample_process_started sample_uis b
  show ?thesis
    by (simp add: block_lengths)
qed

subsection \<open>Determinism\<close>

text \<open>
  C9. Two passes display the same elements in the same order when both processes pass
  the startup checks with the same package version, the menu and every form widget
  (the two buttons included) return the same values, and the same display call, if
  any, raises. The value of the credential and the rest of the environment do not
  matter, nor does how the browser represents the widget values.
\<close>

theorem display_is_deterministic:
  assumes "dotenv_installed w1" and "api_key w1 = Some k1" and "k1 \<noteq> []"
    and "dotenv_installed w2" and "api_key w2 = Some k2" and "k2 \<noteq> []"
    and "underwriting w1 = Some version" and "underwriting w2 = Some version"
    and "menu ui1 = menu ui2"
    and "applicant_id ui1 = applicant_id ui2" and "rules_file ui1 = rules_file ui2"
    and "run_test ui1 = run_test ui2" and "run_interactive ui1 = run_interactive ui2"
    and "st_button ''Run Underwriting Evaluation'' ui1 = st_button ''Run Underwriting Evaluation'' ui2"
    and "list_configs ui1 = list_configs ui2" and "comprehensive ui1 = comprehensive ui2"
    and "variant_a ui1 = variant_a ui2" and "variant_b ui1 = variant_b ui2"
    and "confidence_level ui1 = confidence_level ui2"
    and "st_button ''Run A/B Testing'' ui1 = st_button ''Run A/B Testing'' ui2"
  shows "shown (app1 w1 ui1 f) = shown (app1 w2 ui2 f)
    \<and> halted (app1 w1 ui1 f) = halted (app1 w2 ui2 f)"
proof -
  have basic: "basic_view ui1 f = basic_view ui2 f"
    using assms(10-14) by (simp add: basic_view_def basic_widgets_def basic_block_def)
  have ab: "ab_view ui1 f = ab_view ui2 f"
    using assms(15-20) by (simp add: ab_view_def ab_widgets_def ab_block_def)
  have "dispatch ui1 f = dispatch ui2 f"
    using assms(9) basic ab by (simp add: dispatch_def)
  then show ?thesis
    by (simp add: app1_started [OF assms(1,2,3,7)] app1_started [OF assms(4,5,6,8)])
qed

theorem display_is_deterministic_witness:
  "dotenv_installed sample_process \<and> api_key sample_process = Some ''sk-test''
   \<and> ''sk-test'' \<noteq> []
   \<and> dotenv_installed other_process \<and> api_key other_process = Some ''sk-other''
   \<and> ''sk-other'' \<noteq> []
   \<and> underwriting sample_process = Some ''1.0'' \<and> underwriting other_process = Some ''1.0''
   \<and> menu basic_pressed_ui = menu restated_ui
   \<and> applicant_id basic_pressed_ui = applicant_id restated_ui
   \<and> rules_file basic_pressed_ui = rules_file restated_ui
   \<and> run_test basic_pressed_ui = run_test restated_ui
   \<and> run_interactive basic_pressed_ui = run_interactive restated_ui
   \<and> st_button ''Run Underwriting Evaluation'' basic_pressed_ui
       = st_button ''Run Underwriting Evaluation'' restated_ui
   \<and> list_configs basic_pressed_ui = list_configs restated_ui
   \<and> comprehensive basic_pressed_ui = comprehensive restated_ui
   \<and> variant_a basic_pressed_ui = variant_a restated_ui
   \<and> variant_b basic_pressed_ui = variant_b restated_ui
   \<and> confidence_level basic_pressed_ui = confidence_level restated_ui
   \<and> st_button ''Run A/B Testing'' basic_pressed_ui = st_button ''Run A/B Testing'' restated_ui
   \<and> basic_pressed_ui \<noteq> restated_ui
   \<and> shown (app1 sample_process basic_pressed_ui None) =
       shown (app1 other_process restated_ui None)
   \<and> halted (app1 sample_process basic_pressed_ui None) =
       halted (app1 other_process restated_ui None)"
proof -
  have n: "''sk-test'' \<noteq> []" "''sk-other'' \<noteq> []" by simp_all
  have o: "dotenv_installed other_process" "api_key other_process = Some ''sk-other''"
    "underwriting other_process = Some ''1.0''"
    by (simp_all add: other_process_def api_key_def load_dotenv_def os_getenv_def)
  have u: "menu basic_pressed_ui = menu restated_ui"
    "applicant_id basic_pressed_ui = applicant_id restated_ui"
    "rules_file basic_pressed_ui = rules_file restated_ui"
    "run_test basic_pressed_ui = run_test restated_ui"
    "run_interactive basic_pressed_ui = run_interactive restated_ui"
    "st_button ''Run Underwriting Evaluation'' basic_pressed_ui
       = st_button ''Run Underwriting Evaluation'' restated_ui"
    "list_configs basic_pressed_ui = list_configs restated_ui"
    "comprehensive basic_pressed_ui = comprehensive restated_ui"
    "variant_a basic_pressed_ui = variant_a restated_ui"
    "variant_b basic_pressed_ui = variant_b restated_ui"
    "confidence_level basic_pressed_ui = confidence_level restated_ui"
    "st_button ''Run A/B Testing'' basic_pressed_ui = st_button ''Run A/B Testing'' restated_ui"
    by (simp_all add: basic_pressed_ui_def restated_ui_def menu_def st_radio_def st_button_def
        applicant_id_def rules_file_def st_text_input_def run_test_def run_interactive_def
        st_checkbox_def variant_a_def variant_b_def confidence_level_def st_slider_def
        comprehensive_def list_configs_def default_rules_file_def confidence_default_def
        float_le_def confidence_bounds [unfolded confidence_min_def confidence_max_def confidence_default_def])
  have d: "basic_pressed_ui \<noteq> restated_ui"
  proof
    assume "basic_pressed_ui = restated_ui"
    then have "slider_state basic_pressed_ui ''Confidence Level''
        = slider_state restated_ui ''Confidence Level''"
      by simp
    then show False
      by (simp add: basic_pressed_ui_def restated_ui_def)
  qed
  from display_is_deterministic
    [OF sample_process_started(1,2) n(1) o(1,2) n(2) sample_process_started(3) o(3) u, of None]
    sample_process_started o u d
  show ?thesis by simp
qed

subsection \<open>The applicant id line\<close>

text \<open>
  C10. In the Basic Underwriting view, pressing the button with a non-empty applicant
  id (in a pass where no display call raises) displays that id unchanged in the
  applicant id line; the placeholder \<open>N/A\<close> is substituted for no non-empty id.
\<close>

theorem nonempty_applicant_id_echoed_verbatim:
  assumes "dotenv_installed w" and "api_key w = Some k" and "k \<noteq> []"
    and "underwriting w = Some version"
    and "menu ui = Some basic_label"
    and "st_button ''Run Underwriting Evaluation'' ui"
    and "applicant_id ui \<noteq> []"
  shows "body_of BasicUnderwriting (shown (app1 w ui None)) =
        basic_widgets ui @
        [Spinner ''Running basic underwriting evaluation...'',
         Success basic_success_msg,
         Info (''Applicant ID: '' @ applicant_id ui),
         Info (''Rules File: '' @ rules_file ui),
         Info (''Run Test: '' @ py_str_bool (run_test ui)
               @ '', Run Interactive: '' @ py_str_bool (run_interactive ui))]"
  using assms(7)
  by (simp add: basic_body [OF assms(1-6)] try_except_no_fault basic_block_def py_truthy_def)

theorem nonempty_applicant_id_echoed_verbatim_witness:
  "dotenv_installed sample_process \<and> api_key sample_process = Some ''sk-test''
   \<and> ''sk-test'' \<noteq> [] \<and> underwriting sample_process = Some ''1.0''
   \<and> menu named_pressed_ui = Some basic_label
   \<and> st_button ''Run Underwriting Evaluation'' named_pressed_ui
   \<and> applicant_id named_pressed_ui \<noteq> []
   \<and> body_of BasicUnderwriting (shown (app1 sample_process named_pressed_ui None)) =
        basic_widgets named_pressed_ui @
        [Spinner ''Running basic underwriting evaluation...'',
         Success basic_success_msg,
         Info ''Applicant ID: APP-42'',
         Info ''Rules File: config/rules/underwriting_rules.json'',
         Info ''Run Test: False, Run Interactive: False'']"
proof -
  have n: "''sk-test'' \<noteq> []" by simp
  have a: "applicant_id named_pressed_ui \<noteq> []"
    by (simp add: sample_uis)
  from nonempty_applicant_id_echoed_verbatim
    [OF sample_process_started(1,2) n sample_process_started(3) sample_uis(7,8) a]
    sample_process_started sample_uis(7-12)
  show ?thesis
    by (simp add: py_str_bool_def default_rules_file_def)
qed

end
